theory Spec2Isabelle
  imports Complex_Main "HOL-Library.List_Lexorder" "HOL-Library.Char_ord"
begin

section \<open>Credit risk scoring: the API engine and the dataset generator\<close>

text \<open>
  The development embeds \<^verbatim>\<open>calculate_risk_score\<close> of \<^verbatim>\<open>main.py\<close> and
  \<^verbatim>\<open>generate_application\<close> / \<^verbatim>\<open>generate_dataset\<close> of \<^verbatim>\<open>generate_data.py\<close>.

  Modelling conventions.
  \<^item> Python \<^verbatim>\<open>float\<close> values are rationals (\<^typ>\<open>rat\<close>). The engine is given
    twice: with exact operations (\<open>calculate_risk_score\<close>), and with the float
    operations as a parameter (\<open>calculate_risk_score_with\<close>), so that a property
    proved for every arithmetic holds however the platform rounds. A quotient that
    overflows to infinity compares with the thresholds as a large rational does; NaN
    arises only from infinite inputs, which are not applicant records.
  \<^item> Python \<^verbatim>\<open>int\<close> is \<^typ>\<open>int\<close>, \<^verbatim>\<open>str\<close> is \<^typ>\<open>string\<close>, the
    \<^verbatim>\<open>key_factors\<close> dictionary is a map from keys to lists of strings.
  \<^item> A division by zero raises \<^verbatim>\<open>ZeroDivisionError\<close>: the functions return
    \<open>error + result\<close>.
  \<^item> The wall clock and the random number generator are explicit inputs.
\<close>

subsection \<open>Data model (\<^verbatim>\<open>main.py\<close>)\<close>

datatype error = ZeroDivisionError

record LoanApplication =
  applicant_income :: rat
  loan_amount :: rat
  loan_term_months :: int
  credit_history_months :: int
  employment_status :: string
  property_area :: string
  dependents :: int
  education :: string
  existing_debt :: rat

record RiskAssessment =
  application_id :: string
  risk_score :: int
  risk_category :: string
  approval_recommendation :: string
  confidence :: rat
  key_factors :: "string \<rightharpoonup> string list"
  debt_to_income_ratio :: rat
  loan_to_income_ratio :: rat
  processed_at :: string

text \<open>
  The two reads of \<^verbatim>\<open>datetime.now()\<close> made by one call of the engine, as the strings
  the library formats them to: \<^verbatim>\<open>strftime('%Y%m%d%H%M%S')\<close> of the first read and
  \<^verbatim>\<open>isoformat()\<close> of the second.
\<close>

record clock =
  strftime_now :: string
  isoformat_now :: string

text \<open>
  The constraints that the \<^verbatim>\<open>Field(...)\<close> declarations of \<^verbatim>\<open>LoanApplication\<close>
  enforce (\<^verbatim>\<open>gt\<close>, \<^verbatim>\<open>ge\<close>, \<^verbatim>\<open>le\<close>). The three string fields are declared
  \<^verbatim>\<open>str\<close> with a description only.
\<close>

definition field_constraints :: "LoanApplication \<Rightarrow> bool" where
  "field_constraints a \<longleftrightarrow>
     applicant_income a > 0 \<and> loan_amount a > 0 \<and>
     12 \<le> loan_term_months a \<and> loan_term_months a \<le> 480 \<and>
     credit_history_months a \<ge> 0 \<and>
     0 \<le> dependents a \<and> dependents a \<le> 10 \<and>
     existing_debt a \<ge> 0"

text \<open>The enumerations named in the field descriptions.\<close>

definition valid_enums :: "LoanApplication \<Rightarrow> bool" where
  "valid_enums a \<longleftrightarrow>
     employment_status a \<in> set [''employed'', ''self_employed'', ''unemployed''] \<and>
     property_area a \<in> set [''urban'', ''suburban'', ''rural''] \<and>
     education a \<in> set [''graduate'', ''not_graduate'']"

text \<open>A valid applicant record: numeric constraints and enumeration membership.\<close>

definition valid_application :: "LoanApplication \<Rightarrow> bool" where
  "valid_application a \<longleftrightarrow> field_constraints a \<and> valid_enums a"

subsection \<open>Python's \<^verbatim>\<open>round(x, ndigits)\<close>\<close>

text \<open>
  \<^verbatim>\<open>round\<close> rounds to the nearest multiple of \<open>10\<^sup>-\<^sup>n\<close>, ties going to the even
  neighbour. The model rounds the exact rational value.
\<close>

definition round_half_even :: "rat \<Rightarrow> int" where
  "round_half_even x =
     (let f = \<lfloor>x\<rfloor>; r = x - of_int f
      in if r < 1 / 2 then f
         else if r > 1 / 2 then f + 1
         else if even f then f else f + 1)"

definition py_round :: "rat \<Rightarrow> nat \<Rightarrow> rat" where
  "py_round x ndigits = of_int (round_half_even (x * 10 ^ ndigits)) / 10 ^ ndigits"

subsection \<open>The scoring engine (\<^verbatim>\<open>calculate_risk_score\<close>)\<close>

text \<open>
  The chain of \<^verbatim>\<open>score += ...\<close> statements, from the base score to the value just
  before the cap. Each \<^verbatim>\<open>if/elif\<close> chain is one rebinding of \<open>score\<close>.
\<close>

definition score_points :: "LoanApplication \<Rightarrow> rat \<Rightarrow> rat \<Rightarrow> int" where
  "score_points application debt_to_income loan_to_income =
     (let score = 50;
          score = (if applicant_income application > 80000 then score + 15
                   else if applicant_income application > 50000 then score + 10
                   else if applicant_income application < 25000 then score - 15
                   else score);
          score = (if debt_to_income < 20 then score + 15
                   else if debt_to_income < 35 then score + 5
                   else if debt_to_income > 50 then score - 15
                   else if debt_to_income > 40 then score - 10
                   else score);
          score = (if loan_to_income < 2 then score + 15
                   else if loan_to_income < 3 then score + 8
                   else if loan_to_income > 5 then score - 15
                   else if loan_to_income > 4 then score - 10
                   else score);
          score = (if credit_history_months application > 60 then score + 10
                   else if credit_history_months application > 36 then score + 5
                   else if credit_history_months application < 12 then score - 10
                   else score);
          score = (if employment_status application = ''employed'' then score + 10
                   else if employment_status application = ''unemployed'' then score - 20
                   else score);
          score = (if education application = ''graduate'' then score + 5 else score);
          score = (if property_area application = ''urban'' then score + 5
                   else if property_area application = ''rural'' then score - 3
                   else score);
          score = (if dependents application = 0 then score + 5
                   else if dependents application > 3 then score - 5
                   else score);
          score = (if loan_term_months application \<le> 180 then score + 5
                   else if loan_term_months application > 360 then score - 3
                   else score)
      in score)"

text \<open>The category and the recommendation, from the capped score.\<close>

definition categorize :: "int \<Rightarrow> string \<times> string" where
  "categorize score =
     (if score \<ge> 70 then (''LOW'', ''APPROVE'')
      else if score \<ge> 50 then (''MEDIUM'', ''REVIEW'')
      else (''HIGH'', ''DECLINE''))"

text \<open>The two lists of explanations, appended to in the order of the source.\<close>

definition positive_factors :: "LoanApplication \<Rightarrow> rat \<Rightarrow> rat \<Rightarrow> string list" where
  "positive_factors application debt_to_income loan_to_income =
     (let fs = [];
          fs = (if applicant_income application > 60000
                then fs @ [''Strong income level''] else fs);
          fs = (if debt_to_income < 30
                then fs @ [''Low debt-to-income ratio''] else fs);
          fs = (if credit_history_months application > 48
                then fs @ [''Established credit history''] else fs);
          fs = (if employment_status application = ''employed''
                then fs @ [''Stable employment''] else fs);
          fs = (if loan_to_income < 3
                then fs @ [''Reasonable loan amount''] else fs)
      in fs)"

definition negative_factors :: "LoanApplication \<Rightarrow> rat \<Rightarrow> rat \<Rightarrow> rat \<Rightarrow> string list" where
  "negative_factors application debt_to_income loan_to_income payment_to_income =
     (let fs = [];
          fs = (if debt_to_income > 40
                then fs @ [''High existing debt burden''] else fs);
          fs = (if loan_to_income > 4
                then fs @ [''Large loan relative to income''] else fs);
          fs = (if credit_history_months application < 24
                then fs @ [''Limited credit history''] else fs);
          fs = (if employment_status application = ''unemployed''
                then fs @ [''No stable income source''] else fs);
          fs = (if payment_to_income > 40
                then fs @ [''High monthly payment burden''] else fs)
      in fs)"

text \<open>
  The body of \<^verbatim>\<open>calculate_risk_score\<close> after the four ratios are computed:
  everything from \<^verbatim>\<open>score = 50\<close> to the construction of the result.
\<close>

definition assessment ::
  "clock \<Rightarrow> LoanApplication \<Rightarrow> rat \<Rightarrow> rat \<Rightarrow> rat \<Rightarrow> RiskAssessment" where
  "assessment clk application debt_to_income loan_to_income payment_to_income =
     (let score = score_points application debt_to_income loan_to_income;
          score = max 0 (min 100 score);
          (risk_category, approval) = categorize score;
          pos = positive_factors application debt_to_income loan_to_income;
          neg = negative_factors application debt_to_income loan_to_income payment_to_income;
          app_id = ''APP-'' @ strftime_now clk;
          confidence = 75 / 100 + (of_int \<bar>score - 50\<bar> / 100) * (2 / 10)
      in \<lparr> application_id = app_id,
           risk_score = score,
           risk_category = risk_category,
           approval_recommendation = approval,
           confidence = py_round confidence 2,
           key_factors =
             [''positive'' \<mapsto> (if pos \<noteq> [] then pos else [''None identified'']),
              ''negative'' \<mapsto> (if neg \<noteq> [] then neg else [''None identified''])],
           debt_to_income_ratio = py_round debt_to_income 2,
           loan_to_income_ratio = py_round loan_to_income 2,
           processed_at = isoformat_now clk \<rparr>)"

text \<open>
  The whole function. The first division is by \<^verbatim>\<open>applicant_income\<close>, the third by
  \<^verbatim>\<open>loan_term_months\<close>; either raises when the divisor is zero.
\<close>

definition calculate_risk_score :: "clock \<Rightarrow> LoanApplication \<Rightarrow> error + RiskAssessment" where
  "calculate_risk_score clk application =
     (if applicant_income application = 0 then Inl ZeroDivisionError
      else if loan_term_months application = 0 then Inl ZeroDivisionError
      else
        (let debt_to_income =
               (existing_debt application / applicant_income application) * 100;
             loan_to_income = loan_amount application / applicant_income application;
             monthly_payment =
               loan_amount application / of_int (loan_term_months application);
             payment_to_income =
               (monthly_payment * 12 / applicant_income application) * 100
         in Inr (assessment clk application debt_to_income loan_to_income payment_to_income)))"

subsection \<open>The engine over any float arithmetic\<close>

text \<open>
  The operations on Python \<^verbatim>\<open>float\<close> that the engine uses: \<^verbatim>\<open>+\<close>, \<^verbatim>\<open>*\<close>,
  \<^verbatim>\<open>/\<close> and \<^verbatim>\<open>round(x, ndigits)\<close>. Each is a function of its operands; its
  result is a double, read as the rational it denotes. An operand that is not a double
  (the literal \<^verbatim>\<open>0.2\<close>) stands for the double nearest to it. The comparisons of
  doubles with the integer thresholds are exact.
\<close>

record float_arith =
  fadd :: "rat \<Rightarrow> rat \<Rightarrow> rat"
  fmul :: "rat \<Rightarrow> rat \<Rightarrow> rat"
  fdiv :: "rat \<Rightarrow> rat \<Rightarrow> rat"
  fround :: "rat \<Rightarrow> nat \<Rightarrow> rat"

text \<open>The arithmetic without rounding errors, used by the definitions above.\<close>

definition exact_arith :: float_arith where
  "exact_arith = \<lparr> fadd = (+), fmul = (*), fdiv = (/), fround = py_round \<rparr>"

text \<open>
  An arithmetic in which every sum, product and quotient is too large by one part in
  \<open>2\<^sup>5\<^sup>2\<close>, which is within the error of one binary64 operation.
\<close>

definition upward_arith :: float_arith where
  "upward_arith =
     \<lparr> fadd = (\<lambda>x y. (x + y) * (1 + 1 / 2 ^ 52)),
       fmul = (\<lambda>x y. x * y * (1 + 1 / 2 ^ 52)),
       fdiv = (\<lambda>x y. x / y * (1 + 1 / 2 ^ 52)),
       fround = py_round \<rparr>"

text \<open>
  The body of \<^verbatim>\<open>calculate_risk_score\<close> after the four ratios are computed, with the
  float operations of the arithmetic \<open>ar\<close>.
\<close>

definition assessment_with ::
  "float_arith \<Rightarrow> clock \<Rightarrow> LoanApplication \<Rightarrow> rat \<Rightarrow> rat \<Rightarrow> rat \<Rightarrow> RiskAssessment" where
  "assessment_with ar clk application debt_to_income loan_to_income payment_to_income =
     (let score = score_points application debt_to_income loan_to_income;
          score = max 0 (min 100 score);
          (risk_category, approval) = categorize score;
          pos = positive_factors application debt_to_income loan_to_income;
          neg = negative_factors application debt_to_income loan_to_income payment_to_income;
          app_id = ''APP-'' @ strftime_now clk;
          confidence =
            fadd ar (75 / 100) (fmul ar (fdiv ar (of_int \<bar>score - 50\<bar>) 100) (2 / 10))
      in \<lparr> application_id = app_id,
           risk_score = score,
           risk_category = risk_category,
           approval_recommendation = approval,
           confidence = fround ar confidence 2,
           key_factors =
             [''positive'' \<mapsto> (if pos \<noteq> [] then pos else [''None identified'']),
              ''negative'' \<mapsto> (if neg \<noteq> [] then neg else [''None identified''])],
           debt_to_income_ratio = fround ar debt_to_income 2,
           loan_to_income_ratio = fround ar loan_to_income 2,
           processed_at = isoformat_now clk \<rparr>)"

text \<open>
  \<^verbatim>\<open>calculate_risk_score\<close> with the float operations of the arithmetic \<open>ar\<close>. A
  float division raises when the divisor is zero, whatever the arithmetic.
\<close>

definition calculate_risk_score_with ::
  "float_arith \<Rightarrow> clock \<Rightarrow> LoanApplication \<Rightarrow> error + RiskAssessment" where
  "calculate_risk_score_with ar clk application =
     (if applicant_income application = 0 then Inl ZeroDivisionError
      else if loan_term_months application = 0 then Inl ZeroDivisionError
      else
        (let debt_to_income =
               fmul ar (fdiv ar (existing_debt application) (applicant_income application))
                 100;
             loan_to_income =
               fdiv ar (loan_amount application) (applicant_income application);
             monthly_payment =
               fdiv ar (loan_amount application) (of_int (loan_term_months application));
             payment_to_income =
               fmul ar (fdiv ar (fmul ar monthly_payment 12) (applicant_income application))
                 100
         in Inr (assessment_with ar clk application debt_to_income loan_to_income
                   payment_to_income)))"

text \<open>
  The values that the function binds to \<^verbatim>\<open>debt_to_income\<close>, \<^verbatim>\<open>loan_to_income\<close>
  and \<^verbatim>\<open>payment_to_income\<close> in the arithmetic \<open>ar\<close>.
\<close>

definition debt_to_income_of :: "float_arith \<Rightarrow> LoanApplication \<Rightarrow> rat" where
  "debt_to_income_of ar a = fmul ar (fdiv ar (existing_debt a) (applicant_income a)) 100"

definition loan_to_income_of :: "float_arith \<Rightarrow> LoanApplication \<Rightarrow> rat" where
  "loan_to_income_of ar a = fdiv ar (loan_amount a) (applicant_income a)"

definition payment_to_income_of :: "float_arith \<Rightarrow> LoanApplication \<Rightarrow> rat" where
  "payment_to_income_of ar a =
     fmul ar
       (fdiv ar (fmul ar (fdiv ar (loan_amount a) (of_int (loan_term_months a))) 12)
          (applicant_income a))
       100"

subsection \<open>The dataset generator (\<^verbatim>\<open>generate_data.py\<close>)\<close>

text \<open>
  What one call of \<^verbatim>\<open>generate_application\<close> takes from its environment: the value of
  each \<^verbatim>\<open>random\<close> call in the order of the source, and the day number of
  \<^verbatim>\<open>datetime.now()\<close>.
\<close>

record random_draws =
  rnd_income :: int
  rnd_loan_amount :: int
  rnd_loan_term :: int
  rnd_credit_history :: int
  rnd_employment :: string
  rnd_property_area :: string
  rnd_dependents :: int
  rnd_education :: string
  rnd_existing_debt :: int
  rnd_days :: int
  today :: int

text \<open>
  The ranges the library calls draw from: \<^verbatim>\<open>randint(25000, 150000)\<close>,
  \<^verbatim>\<open>randint(50000, 500000)\<close>, \<^verbatim>\<open>choice([60, 120, 180, 240, 360])\<close>,
  \<^verbatim>\<open>randint(0, 120)\<close>, the three \<^verbatim>\<open>choice\<close>s of labels,
  \<^verbatim>\<open>choices([0, 1, 2, 3, 4], ...)\<close>, \<^verbatim>\<open>randint(0, int(income * 0.5))\<close> and
  \<^verbatim>\<open>randint(0, 365)\<close>.
\<close>

definition draws_in_range :: "random_draws \<Rightarrow> bool" where
  "draws_in_range rnd \<longleftrightarrow>
     25000 \<le> rnd_income rnd \<and> rnd_income rnd \<le> 150000 \<and>
     50000 \<le> rnd_loan_amount rnd \<and> rnd_loan_amount rnd \<le> 500000 \<and>
     rnd_loan_term rnd \<in> set [60, 120, 180, 240, 360] \<and>
     0 \<le> rnd_credit_history rnd \<and> rnd_credit_history rnd \<le> 120 \<and>
     rnd_employment rnd \<in> set [''employed'', ''self_employed'', ''unemployed''] \<and>
     rnd_property_area rnd \<in> set [''urban'', ''suburban'', ''rural''] \<and>
     rnd_dependents rnd \<in> set [0, 1, 2, 3, 4] \<and>
     rnd_education rnd \<in> set [''graduate'', ''not_graduate''] \<and>
     0 \<le> rnd_existing_debt rnd \<and> rnd_existing_debt rnd \<le> rnd_income rnd div 2 \<and>
     0 \<le> rnd_days rnd \<and> rnd_days rnd \<le> 365"

text \<open>
  One row of the dataset: the dictionary that \<^verbatim>\<open>generate_application\<close> returns. The
  keys shared with the API's records carry the prefix \<open>row_\<close>.
\<close>

record application_row =
  application_date :: string
  row_applicant_income :: int
  row_loan_amount :: int
  row_loan_term_months :: int
  row_credit_history_months :: int
  row_employment_status :: string
  row_property_area :: string
  row_dependents :: int
  row_education :: string
  row_existing_debt :: int
  row_debt_to_income_ratio :: rat
  row_loan_to_income_ratio :: rat
  row_risk_score :: int
  row_risk_category :: string
  decision :: string

text \<open>
  The scoring block of \<^verbatim>\<open>generate_application\<close>, from \<^verbatim>\<open># Calculate ratios\<close> to
  the choice of category and decision, as a function of the local variables it reads.
  It returns \<^verbatim>\<open>debt_to_income\<close>, \<^verbatim>\<open>loan_to_income\<close>, \<^verbatim>\<open>score\<close>,
  \<^verbatim>\<open>category\<close> and \<^verbatim>\<open>decision\<close>. The amounts are rationals, so that the block
  can be read at the integers the generator draws and at any amount the API accepts.
\<close>

definition generator_scoring ::
  "rat \<Rightarrow> rat \<Rightarrow> int \<Rightarrow> int \<Rightarrow> string \<Rightarrow> string \<Rightarrow> int \<Rightarrow> string \<Rightarrow> rat \<Rightarrow>
   error + (rat \<times> rat \<times> int \<times> string \<times> string)" where
  "generator_scoring income loan_amt loan_term credit_history employment area deps edu debt =
     (if income = 0 then Inl ZeroDivisionError
      else if loan_term = 0 then Inl ZeroDivisionError
      else
        (let debt_to_income = (debt / income) * 100;
             loan_to_income = loan_amt / income;
             monthly_payment = loan_amt / of_int loan_term;
             payment_to_income = (monthly_payment * 12 / income) * 100;
             score = (50 :: int);
             score = (if income > 80000 then score + 15
                      else if income > 50000 then score + 10
                      else if income < 25000 then score - 15
                      else score);
             score = (if debt_to_income < 20 then score + 15
                      else if debt_to_income < 35 then score + 5
                      else if debt_to_income > 50 then score - 15
                      else if debt_to_income > 40 then score - 10
                      else score);
             score = (if loan_to_income < 2 then score + 15
                      else if loan_to_income < 3 then score + 8
                      else if loan_to_income > 5 then score - 15
                      else if loan_to_income > 4 then score - 10
                      else score);
             score = (if credit_history > 60 then score + 10
                      else if credit_history > 36 then score + 5
                      else if credit_history < 12 then score - 10
                      else score);
             score = (if employment = ''employed'' then score + 10
                      else if employment = ''unemployed'' then score - 20
                      else score);
             score = (if edu = ''graduate'' then score + 5 else score);
             score = (if area = ''urban'' then score + 5
                      else if area = ''rural'' then score - 3
                      else score);
             score = (if deps = 0 then score + 5
                      else if deps > 3 then score - 5
                      else score);
             score = (if loan_term \<le> 180 then score + 5
                      else if loan_term > 360 then score - 3
                      else score);
             score = max 0 (min 100 score);
             (category, decision) =
               (if score \<ge> 70 then (''LOW'', ''APPROVED'')
                else if score \<ge> 50 then (''MEDIUM'', ''REVIEW'')
                else (''HIGH'', ''DECLINED''))
         in Inr (debt_to_income, loan_to_income, score, category, decision)))"

text \<open>
  \<^verbatim>\<open>generate_application\<close>. The library's \<^verbatim>\<open>strftime('%Y-%m-%d')\<close> is the
  parameter \<open>strftime_ymd\<close>, from a day number to its string.
\<close>

definition generate_application ::
  "(int \<Rightarrow> string) \<Rightarrow> random_draws \<Rightarrow> error + application_row" where
  "generate_application strftime_ymd rnd =
     (case generator_scoring (of_int (rnd_income rnd)) (of_int (rnd_loan_amount rnd))
             (rnd_loan_term rnd) (rnd_credit_history rnd) (rnd_employment rnd)
             (rnd_property_area rnd) (rnd_dependents rnd) (rnd_education rnd)
             (of_int (rnd_existing_debt rnd)) of
        Inl e \<Rightarrow> Inl e
      | Inr (debt_to_income, loan_to_income, score, category, dec) \<Rightarrow>
          Inr \<lparr> application_date = strftime_ymd (today rnd - rnd_days rnd),
                row_applicant_income = rnd_income rnd,
                row_loan_amount = rnd_loan_amount rnd,
                row_loan_term_months = rnd_loan_term rnd,
                row_credit_history_months = rnd_credit_history rnd,
                row_employment_status = rnd_employment rnd,
                row_property_area = rnd_property_area rnd,
                row_dependents = rnd_dependents rnd,
                row_education = rnd_education rnd,
                row_existing_debt = rnd_existing_debt rnd,
                row_debt_to_income_ratio = py_round debt_to_income 2,
                row_loan_to_income_ratio = py_round loan_to_income 2,
                row_risk_score = score,
                row_risk_category = category,
                decision = dec \<rparr>)"

text \<open>
  The loop of \<^verbatim>\<open>generate_dataset\<close>: \<open>k\<close> more calls, the \<open>i\<close>-th call of the run
  reading \<open>rnd i\<close>; each row is appended to \<open>applications\<close>. An exception in a call
  ends the loop.
\<close>

fun generate_loop ::
  "(int \<Rightarrow> string) \<Rightarrow> (nat \<Rightarrow> random_draws) \<Rightarrow> nat \<Rightarrow> nat \<Rightarrow> application_row list \<Rightarrow>
   error + application_row list" where
  "generate_loop strftime_ymd rnd i 0 applications = Inr applications"
| "generate_loop strftime_ymd rnd i (Suc k) applications =
     (case generate_application strftime_ymd (rnd i) of
        Inl e \<Rightarrow> Inl e
      | Inr row \<Rightarrow> generate_loop strftime_ymd rnd (Suc i) k (applications @ [row]))"

text \<open>
  \<^verbatim>\<open>generate_dataset\<close>: \<^verbatim>\<open>range(num_applications)\<close> is empty for a negative
  count; \<^verbatim>\<open>list.sort(key=...)\<close> is a stable sort on the date strings, compared as
  Python compares strings (lexicographically, by character code).
\<close>

definition generate_dataset ::
  "(int \<Rightarrow> string) \<Rightarrow> (nat \<Rightarrow> random_draws) \<Rightarrow> int \<Rightarrow> error + application_row list" where
  "generate_dataset strftime_ymd rnd num_applications =
     (case generate_loop strftime_ymd rnd 0 (nat num_applications) [] of
        Inl e \<Rightarrow> Inl e
      | Inr applications \<Rightarrow> Inr (sort_key application_date applications))"

text \<open>The applicant record that a set of draws describes.\<close>

definition application_of :: "random_draws \<Rightarrow> LoanApplication" where
  "application_of rnd =
     \<lparr> applicant_income = of_int (rnd_income rnd),
       loan_amount = of_int (rnd_loan_amount rnd),
       loan_term_months = rnd_loan_term rnd,
       credit_history_months = rnd_credit_history rnd,
       employment_status = rnd_employment rnd,
       property_area = rnd_property_area rnd,
       dependents = rnd_dependents rnd,
       education = rnd_education rnd,
       existing_debt = of_int (rnd_existing_debt rnd) \<rparr>"

text \<open>The decision labels of the API, each with the generator's label for it.\<close>

definition decision_labels :: "(string \<times> string) list" where
  "decision_labels =
     [(''APPROVE'', ''APPROVED''), (''REVIEW'', ''REVIEW''), (''DECLINE'', ''DECLINED'')]"

subsection \<open>The point table of the specification\<close>

text \<open>
  Following section 4 of the specification: the nine band adjustments of its table, each
  a function of the factor it reads, and the score as the base 50 plus their sum. These
  are compared below with the statement chain of the source.
\<close>

definition income_band :: "rat \<Rightarrow> int" where
  "income_band income =
     (if income > 80000 then 15 else if income > 50000 then 10
      else if income < 25000 then - 15 else 0)"

definition debt_to_income_band :: "rat \<Rightarrow> int" where
  "debt_to_income_band dti =
     (if dti < 20 then 15 else if dti < 35 then 5
      else if dti > 50 then - 15 else if dti > 40 then - 10 else 0)"

definition loan_to_income_band :: "rat \<Rightarrow> int" where
  "loan_to_income_band lti =
     (if lti < 2 then 15 else if lti < 3 then 8
      else if lti > 5 then - 15 else if lti > 4 then - 10 else 0)"

definition credit_history_band :: "int \<Rightarrow> int" where
  "credit_history_band months =
     (if months > 60 then 10 else if months > 36 then 5
      else if months < 12 then - 10 else 0)"

definition employment_band :: "string \<Rightarrow> int" where
  "employment_band status =
     (if status = ''employed'' then 10 else if status = ''unemployed'' then - 20 else 0)"

definition education_band :: "string \<Rightarrow> int" where
  "education_band edu = (if edu = ''graduate'' then 5 else 0)"

definition property_area_band :: "string \<Rightarrow> int" where
  "property_area_band area =
     (if area = ''urban'' then 5 else if area = ''rural'' then - 3 else 0)"

definition dependents_band :: "int \<Rightarrow> int" where
  "dependents_band n = (if n = 0 then 5 else if n > 3 then - 5 else 0)"

definition loan_term_band :: "int \<Rightarrow> int" where
  "loan_term_band months = (if months \<le> 180 then 5 else if months > 360 then - 3 else 0)"

definition table_score :: "LoanApplication \<Rightarrow> int" where
  "table_score a =
     50 + income_band (applicant_income a)
        + debt_to_income_band (existing_debt a / applicant_income a * 100)
        + loan_to_income_band (loan_amount a / applicant_income a)
        + credit_history_band (credit_history_months a)
        + employment_band (employment_status a)
        + education_band (education a)
        + property_area_band (property_area a)
        + dependents_band (dependents a)
        + loan_term_band (loan_term_months a)"

text \<open>
  The same table read at the ratios as the function computes them in the arithmetic
  \<open>ar\<close>.
\<close>

definition table_score_with :: "float_arith \<Rightarrow> LoanApplication \<Rightarrow> int" where
  "table_score_with ar a =
     50 + income_band (applicant_income a)
        + debt_to_income_band (debt_to_income_of ar a)
        + loan_to_income_band (loan_to_income_of ar a)
        + credit_history_band (credit_history_months a)
        + employment_band (employment_status a)
        + education_band (education a)
        + property_area_band (property_area a)
        + dependents_band (dependents a)
        + loan_term_band (loan_term_months a)"

subsection \<open>Concrete inputs\<close>

text \<open>The low-risk application of \<^verbatim>\<open>test_score_application_low_risk\<close>.\<close>

definition low_risk_application :: LoanApplication where
  "low_risk_application =
     \<lparr> applicant_income = 100000, loan_amount = 150000, loan_term_months = 180,
       credit_history_months = 96, employment_status = ''employed'',
       property_area = ''urban'', dependents = 1, education = ''graduate'',
       existing_debt = 5000 \<rparr>"

text \<open>The high-risk application of \<^verbatim>\<open>test_score_application_high_risk\<close>.\<close>

definition high_risk_application :: LoanApplication where
  "high_risk_application =
     \<lparr> applicant_income = 20000, loan_amount = 200000, loan_term_months = 360,
       credit_history_months = 6, employment_status = ''unemployed'',
       property_area = ''rural'', dependents = 4, education = ''not_graduate'',
       existing_debt = 15000 \<rparr>"

text \<open>An application on which no band of any factor adds or removes points.\<close>

definition neutral_application :: LoanApplication where
  "neutral_application =
     \<lparr> applicant_income = 30000, loan_amount = 105000, loan_term_months = 240,
       credit_history_months = 24, employment_status = ''self_employed'',
       property_area = ''suburban'', dependents = 2, education = ''not_graduate'',
       existing_debt = 11100 \<rparr>"

text \<open>One set of draws within the ranges of the generator.\<close>

definition draws0 :: random_draws where
  "draws0 =
     \<lparr> rnd_income = 72000, rnd_loan_amount = 180000, rnd_loan_term = 240,
       rnd_credit_history = 40, rnd_employment = ''self_employed'',
       rnd_property_area = ''rural'', rnd_dependents = 0, rnd_education = ''graduate'',
       rnd_existing_debt = 18000, rnd_days = 0, today = 20 \<rparr>"

text \<open>
  A run of the generator whose \<open>i\<close>-th call draws \<open>i\<close> days back from day 20, and
  a formatter for the days of January 2026.
\<close>

definition run0 :: "nat \<Rightarrow> random_draws" where
  "run0 i = draws0\<lparr>rnd_days := int i\<rparr>"

definition january_2026 :: "int \<Rightarrow> string" where
  "january_2026 d =
     ''2026-01-'' @ [''0123456789'' ! nat (d div 10), ''0123456789'' ! nat (d mod 10)]"

text \<open>
  An application whose yearly payments are exactly 40 percent of the income, and one
  whose loan is less than three times the income by one part in \<open>2\<^sup>5\<^sup>4\<close>.
\<close>

definition boundary_application :: LoanApplication where
  "boundary_application =
     \<lparr> applicant_income = 25011, loan_amount = 50022, loan_term_months = 60,
       credit_history_months = 24, employment_status = ''employed'',
       property_area = ''urban'', dependents = 0, education = ''graduate'',
       existing_debt = 0 \<rparr>"

definition large_application :: LoanApplication where
  "large_application =
     \<lparr> applicant_income = 9007199254740991, loan_amount = 27021597764222972,
       loan_term_months = 240, credit_history_months = 24,
       employment_status = ''self_employed'', property_area = ''suburban'',
       dependents = 2, education = ''not_graduate'', existing_debt = 0 \<rparr>"

definition clock0 :: clock where
  "clock0 = \<lparr> strftime_now = ''20260201120000'', isoformat_now = ''2026-02-01T12:00:00'' \<rparr>"

definition clock1 :: clock where
  "clock1 = \<lparr> strftime_now = ''20260301093015'', isoformat_now = ''2026-03-01T09:30:15.250000'' \<rparr>"

section \<open>Properties\<close>

subsection \<open>Basic facts about the engine\<close>

lemma valid_application_divisors:
  assumes "valid_application a"
  shows "applicant_income a \<noteq> 0" and "loan_term_months a \<noteq> 0"
  using assms by (auto simp: valid_application_def field_constraints_def)

lemma calculate_risk_score_valid:
  assumes "valid_application a"
  shows "calculate_risk_score clk a =
           Inr (assessment clk a
                  ((existing_debt a / applicant_income a) * 100)
                  (loan_amount a / applicant_income a)
                  ((loan_amount a / of_int (loan_term_months a) * 12 / applicant_income a) * 100))"
  using valid_application_divisors [OF assms]
  by (simp add: calculate_risk_score_def Let_def)

text \<open>The result record with the local variables of the body substituted.\<close>

lemma assessment_record:
  "assessment clk a d l p =
     \<lparr> application_id = ''APP-'' @ strftime_now clk,
       risk_score = max 0 (min 100 (score_points a d l)),
       risk_category = fst (categorize (max 0 (min 100 (score_points a d l)))),
       approval_recommendation = snd (categorize (max 0 (min 100 (score_points a d l)))),
       confidence =
         py_round (75 / 100 +
           (of_int \<bar>max 0 (min 100 (score_points a d l)) - 50\<bar> / 100) * (2 / 10)) 2,
       key_factors =
         [''positive'' \<mapsto> (if positive_factors a d l \<noteq> [] then positive_factors a d l
                             else [''None identified'']),
          ''negative'' \<mapsto> (if negative_factors a d l p \<noteq> [] then negative_factors a d l p
                             else [''None identified''])],
       debt_to_income_ratio = py_round d 2,
       loan_to_income_ratio = py_round l 2,
       processed_at = isoformat_now clk \<rparr>"
  by (simp only: assessment_def Let_def case_prod_beta)

lemma risk_score_assessment:
  "risk_score (assessment clk a d l p) = max 0 (min 100 (score_points a d l))"
  by (simp only: assessment_record RiskAssessment.simps)

lemma low_risk_application_valid: "valid_application low_risk_application"
  by (simp add: valid_application_def field_constraints_def valid_enums_def
      low_risk_application_def)

lemma high_risk_application_valid: "valid_application high_risk_application"
  by (simp add: valid_application_def field_constraints_def valid_enums_def
      high_risk_application_def)

lemma neutral_application_valid: "valid_application neutral_application"
  by (simp add: valid_application_def field_constraints_def valid_enums_def
      neutral_application_def)

lemma draws0_valid: "valid_application (application_of draws0)"
  by (simp add: valid_application_def field_constraints_def valid_enums_def
      application_of_def draws0_def)

lemma risk_score_range:
  "0 \<le> risk_score (assessment clk a d l p)" "risk_score (assessment clk a d l p) \<le> 100"
  by (simp_all add: risk_score_assessment)

lemma category_assessment:
  "risk_category (assessment clk a d l p) =
     fst (categorize (risk_score (assessment clk a d l p)))"
  "approval_recommendation (assessment clk a d l p) =
     snd (categorize (risk_score (assessment clk a d l p)))"
  by (simp_all only: assessment_record RiskAssessment.simps)

lemma categorize_cases:
  "fst (categorize s) = ''LOW'' \<longleftrightarrow> s \<ge> 70"
  "fst (categorize s) = ''MEDIUM'' \<longleftrightarrow> 50 \<le> s \<and> s < 70"
  "fst (categorize s) = ''HIGH'' \<longleftrightarrow> s < 50"
  "snd (categorize s) = ''APPROVE'' \<longleftrightarrow> s \<ge> 70"
  "snd (categorize s) = ''REVIEW'' \<longleftrightarrow> 50 \<le> s \<and> s < 70"
  "snd (categorize s) = ''DECLINE'' \<longleftrightarrow> s < 50"
  by (auto simp: categorize_def)

lemma key_factors_assessment:
  "key_factors (assessment clk a d l p) ''positive'' =
     Some (if positive_factors a d l \<noteq> [] then positive_factors a d l
           else [''None identified''])"
  "key_factors (assessment clk a d l p) ''negative'' =
     Some (if negative_factors a d l p \<noteq> [] then negative_factors a d l p
           else [''None identified''])"
  by (simp_all add: assessment_record)

lemma positive_factors_empty:
  "positive_factors a d l = [] \<longleftrightarrow>
     \<not> (applicant_income a > 60000 \<or> d < 30 \<or> credit_history_months a > 48 \<or>
        employment_status a = ''employed'' \<or> l < 3)"
  by (simp add: positive_factors_def Let_def)

lemma negative_factors_empty:
  "negative_factors a d l p = [] \<longleftrightarrow>
     \<not> (d > 40 \<or> l > 4 \<or> credit_history_months a < 24 \<or>
        employment_status a = ''unemployed'' \<or> p > 40)"
  by (simp add: negative_factors_def Let_def)

lemma positive_factors_no_placeholder:
  "''None identified'' \<notin> set (positive_factors a d l)"
  by (simp add: positive_factors_def Let_def)

lemma negative_factors_no_placeholder:
  "''None identified'' \<notin> set (negative_factors a d l p)"
  by (simp add: negative_factors_def Let_def)

subsection \<open>Rounding the confidence\<close>

text \<open>
  The confidence before rounding is \<open>0.75 + 0.002 d\<close> for the integer distance \<open>d\<close> of
  the score from 50, so its hundredfold is a multiple of one fifth: it is never halfway
  between two integers, and the tie rule of \<^verbatim>\<open>round\<close> is never used.
  A binary float differs from this rational by far less than the distance to the nearest
  tie, so rounding the float and rounding the rational give the same two decimals.
\<close>

lemma round_half_even_fifths:
  "round_half_even (of_int n / 5) = (n + 2) div 5"
proof -
  have fl: "\<lfloor>(of_int n / 5 :: rat)\<rfloor> = n div 5"
    using floor_divide_of_int_eq [of n 5, where ?'a = rat] by simp
  have frac: "(of_int n / 5 :: rat) - of_int (n div 5) = of_int (n mod 5) / 5"
  proof -
    have "(of_int n :: rat) = of_int (5 * (n div 5) + n mod 5)"
      by (simp only: mult_div_mod_eq)
    also have "\<dots> = 5 * of_int (n div 5) + of_int (n mod 5)"
      by (simp only: of_int_add of_int_mult of_int_numeral)
    finally show ?thesis by (simp add: field_simps)
  qed
  have m: "0 \<le> n mod 5" "n mod 5 < 5" by simp_all
  have lt: "(of_int (n mod 5) / 5 :: rat) < 1 / 2 \<longleftrightarrow> n mod 5 \<le> 2"
  proof -
    have "(of_int (n mod 5) / 5 :: rat) < 1 / 2 \<longleftrightarrow>
            (of_int (2 * (n mod 5)) :: rat) < of_int 5"
      by (simp add: field_simps)
    also have "\<dots> \<longleftrightarrow> 2 * (n mod 5) < 5" by (simp only: of_int_less_iff)
    finally show ?thesis by auto
  qed
  have gt: "(of_int (n mod 5) / 5 :: rat) > 1 / 2 \<longleftrightarrow> n mod 5 \<ge> 3"
  proof -
    have "(of_int (n mod 5) / 5 :: rat) > 1 / 2 \<longleftrightarrow>
            (of_int 5 :: rat) < of_int (2 * (n mod 5))"
      by (simp add: field_simps)
    also have "\<dots> \<longleftrightarrow> 5 < 2 * (n mod 5)" by (simp only: of_int_less_iff)
    finally show ?thesis by auto
  qed
  have "round_half_even (of_int n / 5) =
          (if n mod 5 \<le> 2 then n div 5
           else if n mod 5 \<ge> 3 then n div 5 + 1
           else if even (n div 5) then n div 5 else n div 5 + 1)"
    by (simp only: round_half_even_def Let_def fl frac lt gt)
  also have "\<dots> = (if n mod 5 \<le> 2 then n div 5 else n div 5 + 1)"
    by auto
  also have "\<dots> = (n + 2) div 5"
    using m by (auto; presburger)
  finally show ?thesis .
qed

lemma confidence_closed_form:
  "py_round (75 / 100 + (of_int d / 100) * (2 / 10)) 2 = of_int (75 + (d + 2) div 5) / 100"
proof -
  have "(75 / 100 + (of_int d / 100) * (2 / 10)) * 10 ^ 2 = (of_int (375 + d) / 5 :: rat)"
    by (simp add: field_simps)
  then have "py_round (75 / 100 + (of_int d / 100) * (2 / 10)) 2
               = of_int (round_half_even (of_int (375 + d) / 5)) / 10 ^ 2"
    by (simp only: py_round_def)
  also have "round_half_even (of_int (375 + d) / 5) = 75 + (d + 2) div 5"
    unfolding round_half_even_fifths by presburger
  finally show ?thesis by simp
qed

lemma confidence_assessment:
  "confidence (assessment clk a d l p) =
     py_round (75 / 100 + (of_int \<bar>risk_score (assessment clk a d l p) - 50\<bar> / 100) * (2 / 10)) 2"
  by (simp only: assessment_record RiskAssessment.simps)

lemma confidence_value:
  "confidence (assessment clk a d l p) =
     of_int (75 + (\<bar>risk_score (assessment clk a d l p) - 50\<bar> + 2) div 5) / 100"
  unfolding confidence_assessment by (rule confidence_closed_form)

lemma confidence_steps_bounds:
  fixes s :: int
  assumes "0 \<le> s" "s \<le> 100"
  shows "75 \<le> 75 + (\<bar>s - 50\<bar> + 2) div 5" "75 + (\<bar>s - 50\<bar> + 2) div 5 \<le> 85"
  using assms by presburger+

lemma confidence_range:
  "75 / 100 \<le> confidence (assessment clk a d l p)"
  "confidence (assessment clk a d l p) \<le> 85 / 100"
proof -
  let ?s = "risk_score (assessment clk a d l p)"
  let ?k = "75 + (\<bar>?s - 50\<bar> + 2) div 5"
  have k: "75 \<le> ?k" "?k \<le> 85"
    using confidence_steps_bounds [OF risk_score_range [of clk a d l p]] by simp_all
  have "(of_int 75 :: rat) \<le> of_int ?k" using k(1) by (simp only: of_int_le_iff)
  then show "75 / 100 \<le> confidence (assessment clk a d l p)"
    unfolding confidence_value by (simp add: divide_le_cancel)
  have "(of_int ?k :: rat) \<le> of_int 85" using k(2) by (simp only: of_int_le_iff)
  then show "confidence (assessment clk a d l p) \<le> 85 / 100"
    unfolding confidence_value by (simp add: divide_le_cancel)
qed

lemma confidence_mono:
  assumes "\<bar>risk_score (assessment clk1 a1 d1 l1 p1) - 50\<bar>
             \<le> \<bar>risk_score (assessment clk2 a2 d2 l2 p2) - 50\<bar>"
  shows "confidence (assessment clk1 a1 d1 l1 p1) \<le> confidence (assessment clk2 a2 d2 l2 p2)"
proof -
  let ?e1 = "\<bar>risk_score (assessment clk1 a1 d1 l1 p1) - 50\<bar>"
  let ?e2 = "\<bar>risk_score (assessment clk2 a2 d2 l2 p2) - 50\<bar>"
  have "(?e1 + 2) div 5 \<le> (?e2 + 2) div 5"
    using assms by (intro zdiv_mono1) simp_all
  then have "(of_int (75 + (?e1 + 2) div 5) :: rat) \<le> of_int (75 + (?e2 + 2) div 5)"
    by (simp only: of_int_le_iff add_le_cancel_left)
  then show ?thesis
    unfolding confidence_value by (simp add: divide_le_cancel)
qed

text \<open>The two ends of the range of the confidence.\<close>

lemma low_risk_assessed:
  "\<exists>r. calculate_risk_score clk low_risk_application = Inr r \<and>
       risk_score r = 100 \<and> confidence r = 85 / 100"
  unfolding calculate_risk_score_valid [OF low_risk_application_valid]
  by (simp add: confidence_value risk_score_assessment score_points_def
      low_risk_application_def Let_def)

lemma neutral_assessed:
  "\<exists>r. calculate_risk_score clk neutral_application = Inr r \<and>
       risk_score r = 50 \<and> confidence r = 75 / 100"
  unfolding calculate_risk_score_valid [OF neutral_application_valid]
  by (simp add: confidence_value risk_score_assessment score_points_def
      neutral_application_def Let_def)

subsection \<open>The statement chain and the point table\<close>

lemma band_steps:
  fixes s :: int
  shows
  "(if 80000 < income then s + 15 else if 50000 < income then s + 10
    else if income < 25000 then s - 15 else s) = s + income_band income"
  "(if dti < 20 then s + 15 else if dti < 35 then s + 5
    else if 50 < dti then s - 15 else if 40 < dti then s - 10 else s)
     = s + debt_to_income_band dti"
  "(if lti < 2 then s + 15 else if lti < 3 then s + 8
    else if 5 < lti then s - 15 else if 4 < lti then s - 10 else s)
     = s + loan_to_income_band lti"
  "(if 60 < months then s + 10 else if 36 < months then s + 5
    else if months < 12 then s - 10 else s) = s + credit_history_band months"
  "(if status = ''employed'' then s + 10 else if status = ''unemployed'' then s - 20 else s)
     = s + employment_band status"
  "(if edu = ''graduate'' then s + 5 else s) = s + education_band edu"
  "(if area = ''urban'' then s + 5 else if area = ''rural'' then s - 3 else s)
     = s + property_area_band area"
  "(if n = 0 then s + 5 else if 3 < n then s - 5 else s) = s + dependents_band n"
  "(if term \<le> 180 then s + 5 else if 360 < term then s - 3 else s) = s + loan_term_band term"
  by (simp_all add: income_band_def debt_to_income_band_def loan_to_income_band_def
      credit_history_band_def employment_band_def education_band_def property_area_band_def
      dependents_band_def loan_term_band_def)

lemma score_points_table:
  "score_points a (existing_debt a / applicant_income a * 100)
     (loan_amount a / applicant_income a) = table_score a"
  by (simp only: score_points_def table_score_def Let_def band_steps)

lemma generator_scoring_table:
  assumes "income \<noteq> 0" and "loan_term \<noteq> 0"
  shows "generator_scoring income loan_amt loan_term credit_history employment area deps edu debt =
     (let s = max 0 (min 100
            (50 + income_band income
                + debt_to_income_band (debt / income * 100)
                + loan_to_income_band (loan_amt / income)
                + credit_history_band credit_history
                + employment_band employment
                + education_band edu
                + property_area_band area
                + dependents_band deps
                + loan_term_band loan_term))
      in Inr (debt / income * 100, loan_amt / income, s,
              if s \<ge> 70 then ''LOW'' else if s \<ge> 50 then ''MEDIUM'' else ''HIGH'',
              if s \<ge> 70 then ''APPROVED'' else if s \<ge> 50 then ''REVIEW'' else ''DECLINED''))"
proof -
  have pair: "(case (if c1 then (x1, y1) else if c2 then (x2, y2) else (x3, y3)) of
                (c, d) \<Rightarrow> f c d) =
              f (if c1 then x1 else if c2 then x2 else x3)
                (if c1 then y1 else if c2 then y2 else y3)"
    for c1 c2 and x1 x2 x3 y1 y2 y3 :: string and f :: "string \<Rightarrow> string \<Rightarrow> 'b"
    by simp
  show ?thesis
    by (simp only: generator_scoring_def assms if_False Let_def band_steps pair)
qed

lemma categorize_generator:
  "fst (categorize s) = (if s \<ge> 70 then ''LOW'' else if s \<ge> 50 then ''MEDIUM'' else ''HIGH'')"
  "(snd (categorize s),
    if s \<ge> 70 then ''APPROVED'' else if s \<ge> 50 then ''REVIEW'' else ''DECLINED'')
     \<in> set decision_labels"
  by (simp_all add: categorize_def decision_labels_def)

lemma negative_factors_split:
  "negative_factors a d l p =
     negative_factors a d l 0 @ (if p > 40 then [''High monthly payment burden''] else [])"
  by (simp add: negative_factors_def Let_def)

subsection \<open>Facts about the engine over any float arithmetic\<close>

text \<open>With the exact arithmetic the two transcriptions of the engine coincide.\<close>

lemma assessment_with_exact:
  "assessment_with exact_arith clk a d l p = assessment clk a d l p"
  by (simp only: assessment_with_def assessment_def exact_arith_def float_arith.simps)

lemma calculate_risk_score_with_exact:
  "calculate_risk_score_with exact_arith clk a = calculate_risk_score clk a"
  unfolding calculate_risk_score_with_def calculate_risk_score_def assessment_with_exact
  by (simp only: exact_arith_def float_arith.simps)

lemma calculate_risk_score_with_valid:
  assumes "valid_application a"
  shows "calculate_risk_score_with ar clk a =
           Inr (assessment_with ar clk a (debt_to_income_of ar a) (loan_to_income_of ar a)
                  (payment_to_income_of ar a))"
  using valid_application_divisors [OF assms]
  by (simp add: calculate_risk_score_with_def debt_to_income_of_def loan_to_income_of_def
      payment_to_income_of_def Let_def)

lemma assessment_with_record:
  "assessment_with ar clk a d l p =
     \<lparr> application_id = ''APP-'' @ strftime_now clk,
       risk_score = max 0 (min 100 (score_points a d l)),
       risk_category = fst (categorize (max 0 (min 100 (score_points a d l)))),
       approval_recommendation = snd (categorize (max 0 (min 100 (score_points a d l)))),
       confidence =
         fround ar
           (fadd ar (75 / 100)
              (fmul ar (fdiv ar (of_int \<bar>max 0 (min 100 (score_points a d l)) - 50\<bar>) 100)
                 (2 / 10))) 2,
       key_factors =
         [''positive'' \<mapsto> (if positive_factors a d l \<noteq> [] then positive_factors a d l
                             else [''None identified'']),
          ''negative'' \<mapsto> (if negative_factors a d l p \<noteq> [] then negative_factors a d l p
                             else [''None identified''])],
       debt_to_income_ratio = fround ar d 2,
       loan_to_income_ratio = fround ar l 2,
       processed_at = isoformat_now clk \<rparr>"
  by (simp only: assessment_with_def Let_def case_prod_beta)

lemma risk_score_assessment_with:
  "risk_score (assessment_with ar clk a d l p) = max 0 (min 100 (score_points a d l))"
  by (simp only: assessment_with_record RiskAssessment.simps)

lemma category_assessment_with:
  "risk_category (assessment_with ar clk a d l p) =
     fst (categorize (risk_score (assessment_with ar clk a d l p)))"
  "approval_recommendation (assessment_with ar clk a d l p) =
     snd (categorize (risk_score (assessment_with ar clk a d l p)))"
  by (simp_all only: assessment_with_record RiskAssessment.simps)

lemma key_factors_assessment_with:
  "key_factors (assessment_with ar clk a d l p) ''positive'' =
     Some (if positive_factors a d l \<noteq> [] then positive_factors a d l
           else [''None identified''])"
  "key_factors (assessment_with ar clk a d l p) ''negative'' =
     Some (if negative_factors a d l p \<noteq> [] then negative_factors a d l p
           else [''None identified''])"
  by (simp_all add: assessment_with_record)

lemma score_points_bands:
  "score_points a d l =
     50 + income_band (applicant_income a) + debt_to_income_band d + loan_to_income_band l
        + credit_history_band (credit_history_months a)
        + employment_band (employment_status a)
        + education_band (education a)
        + property_area_band (property_area a)
        + dependents_band (dependents a)
        + loan_term_band (loan_term_months a)"
  by (simp only: score_points_def Let_def band_steps)

lemma score_points_table_with:
  "score_points a (debt_to_income_of ar a) (loan_to_income_of ar a) = table_score_with ar a"
  by (simp only: score_points_bands table_score_with_def)

lemma assessment_with_payment_to_income:
  "assessment_with ar clk a d l p =
     (assessment_with ar clk a d l q)
       \<lparr>key_factors := (key_factors (assessment_with ar clk a d l q))(''negative'' \<mapsto>
          (if p > 40 then negative_factors a d l 0 @ [''High monthly payment burden'']
           else if negative_factors a d l 0 \<noteq> [] then negative_factors a d l 0
           else [''None identified'']))\<rparr>"
  unfolding assessment_with_record
  by (simp add: negative_factors_split [of a d l p])


lemma boundary_application_valid: "valid_application boundary_application"
  by (simp add: valid_application_def field_constraints_def valid_enums_def
      boundary_application_def)

lemma large_application_valid: "valid_application large_application"
  by (simp add: valid_application_def field_constraints_def valid_enums_def
      large_application_def)

lemma boundary_ratios_upward:
  "debt_to_income_of upward_arith boundary_application = 0"
  "loan_to_income_of upward_arith boundary_application = 2 * (1 + 1 / 2 ^ 52)"
  "payment_to_income_of upward_arith boundary_application = 40 * (1 + 1 / 2 ^ 52) ^ 4"
  by (simp_all add: debt_to_income_of_def loan_to_income_of_def payment_to_income_of_def
      upward_arith_def boundary_application_def power4_eq_xxxx)

lemma boundary_ratios_exact:
  "debt_to_income_of exact_arith boundary_application = 0"
  "loan_to_income_of exact_arith boundary_application = 2"
  "payment_to_income_of exact_arith boundary_application = 40"
  by (simp_all add: debt_to_income_of_def loan_to_income_of_def payment_to_income_of_def
      exact_arith_def boundary_application_def)

lemma large_ratios_upward:
  "debt_to_income_of upward_arith large_application = 0"
  "loan_to_income_of upward_arith large_application =
     27021597764222972 / 9007199254740991 * (1 + 1 / 2 ^ 52)"
  by (simp_all add: debt_to_income_of_def loan_to_income_of_def upward_arith_def
      large_application_def)

lemma large_ratios_exact:
  "debt_to_income_of exact_arith large_application = 0"
  "loan_to_income_of exact_arith large_application = 27021597764222972 / 9007199254740991"
  by (simp_all add: debt_to_income_of_def loan_to_income_of_def exact_arith_def
      large_application_def)

lemma large_table_scores:
  "table_score_with upward_arith large_application = 80"
  "table_score_with exact_arith large_application = 88"
  unfolding table_score_with_def large_ratios_upward large_ratios_exact
  by (simp_all add: large_application_def income_band_def debt_to_income_band_def
      loan_to_income_band_def credit_history_band_def employment_band_def education_band_def
      property_area_band_def dependents_band_def loan_term_band_def)

subsection \<open>The generator's loop\<close>

lemma generate_application_in_range:
  assumes "draws_in_range rnd"
  shows "\<exists>row. generate_application strftime_ymd rnd = Inr row \<and>
           application_date row = strftime_ymd (today rnd - rnd_days rnd)"
proof -
  have "(of_int (rnd_income rnd) :: rat) \<noteq> 0" "rnd_loan_term rnd \<noteq> 0"
    using assms by (auto simp: draws_in_range_def)
  from generator_scoring_table [OF this]
  obtain t where "generator_scoring (of_int (rnd_income rnd)) (of_int (rnd_loan_amount rnd))
             (rnd_loan_term rnd) (rnd_credit_history rnd) (rnd_employment rnd)
             (rnd_property_area rnd) (rnd_dependents rnd) (rnd_education rnd)
             (of_int (rnd_existing_debt rnd)) = Inr t"
    unfolding Let_def by blast
  then show ?thesis
    by (simp add: generate_application_def case_prod_beta)
qed

lemma generate_loop_total:
  assumes "\<forall>j<k. draws_in_range (rnd (i + j))"
  shows "\<exists>rows. generate_loop strftime_ymd rnd i k acc = Inr (acc @ rows) \<and> length rows = k"
  using assms
proof (induction k arbitrary: i acc)
  case 0
  then show ?case by simp
next
  case (Suc k)
  from Suc.prems have "draws_in_range (rnd i)" by force
  from generate_application_in_range [OF this] obtain row
    where row: "generate_application strftime_ymd (rnd i) = Inr row" by blast
  have "\<forall>j<k. draws_in_range (rnd (Suc i + j))"
    using Suc.prems by (metis Suc_less_eq add_Suc_shift)
  from Suc.IH [OF this, of "acc @ [row]"] obtain rows
    where rows: "generate_loop strftime_ymd rnd (Suc i) k (acc @ [row]) = Inr ((acc @ [row]) @ rows)"
      and len: "length rows = k" by blast
  have "generate_loop strftime_ymd rnd i (Suc k) acc = Inr (acc @ (row # rows))"
    by (simp add: row rows)
  with len show ?case by (intro exI [of _ "row # rows"]) simp
qed

lemma run0_in_range: "\<forall>i < nat 3. draws_in_range (run0 i)"
  by (simp add: run0_def draws0_def draws_in_range_def)

subsection \<open>The claims\<close>

text \<open>
  C1. For every valid applicant record the engine returns an assessment whose
  \<open>risk_score\<close> lies between 0 and 100.
\<close>

theorem risk_score_bounded:
  assumes "valid_application a"
  shows "\<exists>r. calculate_risk_score clk a = Inr r \<and> 0 \<le> risk_score r \<and> risk_score r \<le> 100"
  by (simp add: calculate_risk_score_valid [OF assms] risk_score_assessment)

theorem risk_score_bounded_witness:
  "valid_application low_risk_application \<and>
   (\<exists>r. calculate_risk_score clock0 low_risk_application = Inr r \<and>
        0 \<le> risk_score r \<and> risk_score r \<le> 100)"
  using risk_score_bounded [OF low_risk_application_valid, of clock0]
    low_risk_application_valid by simp

text \<open>
  C2. For every valid applicant record the capped score, the category and the
  recommendation correspond three ways: score at least 70, LOW and APPROVE; score from 50
  to 69, MEDIUM and REVIEW; score below 50, HIGH and DECLINE.
\<close>

theorem category_decision_correspondence:
  assumes "valid_application a"
  shows "\<exists>r. calculate_risk_score clk a = Inr r \<and>
           (risk_score r \<ge> 70 \<longleftrightarrow> risk_category r = ''LOW'') \<and>
           (risk_category r = ''LOW'' \<longleftrightarrow> approval_recommendation r = ''APPROVE'') \<and>
           (50 \<le> risk_score r \<and> risk_score r < 70 \<longleftrightarrow> risk_category r = ''MEDIUM'') \<and>
           (risk_category r = ''MEDIUM'' \<longleftrightarrow> approval_recommendation r = ''REVIEW'') \<and>
           (risk_score r < 50 \<longleftrightarrow> risk_category r = ''HIGH'') \<and>
           (risk_category r = ''HIGH'' \<longleftrightarrow> approval_recommendation r = ''DECLINE'')"
  unfolding calculate_risk_score_valid [OF assms]
  by (simp only: sum.inject simp_thms category_assessment categorize_cases)

theorem category_decision_correspondence_witness:
  "valid_application high_risk_application \<and>
   (\<exists>r. calculate_risk_score clock0 high_risk_application = Inr r \<and>
      (risk_score r \<ge> 70 \<longleftrightarrow> risk_category r = ''LOW'') \<and>
      (risk_category r = ''LOW'' \<longleftrightarrow> approval_recommendation r = ''APPROVE'') \<and>
      (50 \<le> risk_score r \<and> risk_score r < 70 \<longleftrightarrow> risk_category r = ''MEDIUM'') \<and>
      (risk_category r = ''MEDIUM'' \<longleftrightarrow> approval_recommendation r = ''REVIEW'') \<and>
      (risk_score r < 50 \<longleftrightarrow> risk_category r = ''HIGH'') \<and>
      (risk_category r = ''HIGH'' \<longleftrightarrow> approval_recommendation r = ''DECLINE''))"
  by (intro conjI)
    (rule high_risk_application_valid,
     rule category_decision_correspondence [OF high_risk_application_valid])

text \<open>
  C3. Two calls of the engine on the same valid applicant record, at any two readings of
  the clock, agree on the score, the category, the recommendation and both lists of key
  factors: these components do not depend on the state outside the record.
\<close>

theorem scoring_deterministic:
  assumes "valid_application a"
  shows "\<exists>r1 r2. calculate_risk_score clk1 a = Inr r1 \<and> calculate_risk_score clk2 a = Inr r2 \<and>
           risk_score r1 = risk_score r2 \<and>
           risk_category r1 = risk_category r2 \<and>
           approval_recommendation r1 = approval_recommendation r2 \<and>
           key_factors r1 ''positive'' = key_factors r2 ''positive'' \<and>
           key_factors r1 ''negative'' = key_factors r2 ''negative'' \<and>
           key_factors r1 = key_factors r2"
  unfolding calculate_risk_score_valid [OF assms]
  by (simp add: assessment_record)

theorem scoring_deterministic_witness:
  "valid_application low_risk_application \<and>
   (\<exists>r1 r2. calculate_risk_score clock0 low_risk_application = Inr r1 \<and>
      calculate_risk_score clock1 low_risk_application = Inr r2 \<and>
      risk_score r1 = risk_score r2 \<and>
      risk_category r1 = risk_category r2 \<and>
      approval_recommendation r1 = approval_recommendation r2 \<and>
      key_factors r1 ''positive'' = key_factors r2 ''positive'' \<and>
      key_factors r1 ''negative'' = key_factors r2 ''negative'' \<and>
      key_factors r1 = key_factors r2)"
  by (intro conjI)
    (rule low_risk_application_valid,
     rule scoring_deterministic [OF low_risk_application_valid])

text \<open>
  C4. For every valid applicant record the confidence is
  \<open>0.75 + (|risk_score - 50| / 100) * 0.2\<close> rounded to two decimals, and lies between
  0.75 and 0.95; for two valid records, the one whose score is no farther from 50 has no
  greater confidence.
\<close>

theorem confidence_formula_monotone:
  assumes "valid_application a1" and "valid_application a2"
  shows "\<exists>r1 r2. calculate_risk_score clk1 a1 = Inr r1 \<and> calculate_risk_score clk2 a2 = Inr r2 \<and>
           confidence r1 =
             py_round (75 / 100 + (of_int \<bar>risk_score r1 - 50\<bar> / 100) * (2 / 10)) 2 \<and>
           75 / 100 \<le> confidence r1 \<and> confidence r1 \<le> 95 / 100 \<and>
           (\<bar>risk_score r1 - 50\<bar> \<le> \<bar>risk_score r2 - 50\<bar> \<longrightarrow> confidence r1 \<le> confidence r2)"
proof -
  let ?r1 = "assessment clk1 a1 (existing_debt a1 / applicant_income a1 * 100)
               (loan_amount a1 / applicant_income a1)
               (loan_amount a1 / of_int (loan_term_months a1) * 12 / applicant_income a1 * 100)"
  let ?r2 = "assessment clk2 a2 (existing_debt a2 / applicant_income a2 * 100)
               (loan_amount a2 / applicant_income a2)
               (loan_amount a2 / of_int (loan_term_months a2) * 12 / applicant_income a2 * 100)"
  have c1: "calculate_risk_score clk1 a1 = Inr ?r1"
    by (rule calculate_risk_score_valid [OF assms(1)])
  have c2: "calculate_risk_score clk2 a2 = Inr ?r2"
    by (rule calculate_risk_score_valid [OF assms(2)])
  have f: "confidence ?r1 =
             py_round (75 / 100 + (of_int \<bar>risk_score ?r1 - 50\<bar> / 100) * (2 / 10)) 2"
    by (rule confidence_assessment)
  have lo: "75 / 100 \<le> confidence ?r1" by (rule confidence_range)
  have "confidence ?r1 \<le> 85 / 100" by (rule confidence_range)
  then have hi: "confidence ?r1 \<le> 95 / 100" by simp
  have mono: "\<bar>risk_score ?r1 - 50\<bar> \<le> \<bar>risk_score ?r2 - 50\<bar> \<longrightarrow>
                confidence ?r1 \<le> confidence ?r2"
    using confidence_mono by blast
  from c1 c2 f lo hi mono show ?thesis by blast
qed

theorem confidence_formula_monotone_witness:
  "valid_application neutral_application \<and> valid_application low_risk_application \<and>
   (\<exists>r1 r2. calculate_risk_score clock0 neutral_application = Inr r1 \<and>
      calculate_risk_score clock1 low_risk_application = Inr r2 \<and>
      confidence r1 =
        py_round (75 / 100 + (of_int \<bar>risk_score r1 - 50\<bar> / 100) * (2 / 10)) 2 \<and>
      75 / 100 \<le> confidence r1 \<and> confidence r1 \<le> 95 / 100 \<and>
      (\<bar>risk_score r1 - 50\<bar> \<le> \<bar>risk_score r2 - 50\<bar> \<longrightarrow> confidence r1 \<le> confidence r2))"
  by (intro conjI)
    (rule neutral_application_valid, rule low_risk_application_valid,
     rule confidence_formula_monotone [OF neutral_application_valid low_risk_application_valid])

text \<open>
  C5. For every valid applicant record, whatever the float arithmetic, the positive list
  is the single placeholder \<open>None identified\<close> exactly when none of the five positive
  rules fires, the negative list is the single placeholder exactly when none of the five
  negative rules fires, and a list that contains the placeholder contains nothing else.
  The rules read \<^verbatim>\<open>debt_to_income\<close>, \<^verbatim>\<open>loan_to_income\<close> and
  \<^verbatim>\<open>payment_to_income\<close> at the values the function has computed.
\<close>

theorem placeholder_iff_no_rule:
  assumes "valid_application a"
  shows "\<exists>r pos neg. calculate_risk_score_with ar clk a = Inr r \<and>
           key_factors r ''positive'' = Some pos \<and> key_factors r ''negative'' = Some neg \<and>
           (pos = [''None identified''] \<longleftrightarrow>
              \<not> (applicant_income a > 60000 \<or>
                 debt_to_income_of ar a < 30 \<or>
                 credit_history_months a > 48 \<or>
                 employment_status a = ''employed'' \<or>
                 loan_to_income_of ar a < 3)) \<and>
           (neg = [''None identified''] \<longleftrightarrow>
              \<not> (debt_to_income_of ar a > 40 \<or>
                 loan_to_income_of ar a > 4 \<or>
                 credit_history_months a < 24 \<or>
                 employment_status a = ''unemployed'' \<or>
                 payment_to_income_of ar a > 40)) \<and>
           (''None identified'' \<in> set pos \<longrightarrow> pos = [''None identified'']) \<and>
           (''None identified'' \<in> set neg \<longrightarrow> neg = [''None identified''])"
proof -
  let ?d = "debt_to_income_of ar a"
  let ?l = "loan_to_income_of ar a"
  let ?p = "payment_to_income_of ar a"
  let ?pos = "if positive_factors a ?d ?l \<noteq> [] then positive_factors a ?d ?l
              else [''None identified'']"
  let ?neg = "if negative_factors a ?d ?l ?p \<noteq> [] then negative_factors a ?d ?l ?p
              else [''None identified'']"
  have pos_iff: "?pos = [''None identified''] \<longleftrightarrow> positive_factors a ?d ?l = []"
    using positive_factors_no_placeholder [of a ?d ?l] by (auto split: if_splits)
  have neg_iff: "?neg = [''None identified''] \<longleftrightarrow> negative_factors a ?d ?l ?p = []"
    using negative_factors_no_placeholder [of a ?d ?l ?p] by (auto split: if_splits)
  have pos_alone: "''None identified'' \<in> set ?pos \<longrightarrow> ?pos = [''None identified'']"
    using positive_factors_no_placeholder [of a ?d ?l] by (auto split: if_splits)
  have neg_alone: "''None identified'' \<in> set ?neg \<longrightarrow> ?neg = [''None identified'']"
    using negative_factors_no_placeholder [of a ?d ?l ?p] by (auto split: if_splits)
  have "calculate_risk_score_with ar clk a = Inr (assessment_with ar clk a ?d ?l ?p)"
    by (rule calculate_risk_score_with_valid [OF assms])
  moreover have "key_factors (assessment_with ar clk a ?d ?l ?p) ''positive'' = Some ?pos"
    by (rule key_factors_assessment_with)
  moreover have "key_factors (assessment_with ar clk a ?d ?l ?p) ''negative'' = Some ?neg"
    by (rule key_factors_assessment_with)
  ultimately show ?thesis
    using pos_iff neg_iff pos_alone neg_alone
    unfolding positive_factors_empty negative_factors_empty by blast
qed

theorem placeholder_iff_no_rule_witness:
  "valid_application boundary_application \<and>
   payment_to_income_of upward_arith boundary_application > 40 \<and>
   (\<exists>r. calculate_risk_score_with upward_arith clock0 boundary_application = Inr r \<and>
      key_factors r ''negative'' = Some [''High monthly payment burden''] \<and>
      key_factors r ''positive'' =
        Some [''Low debt-to-income ratio'', ''Stable employment'',
              ''Reasonable loan amount'']) \<and>
   payment_to_income_of exact_arith boundary_application = 40 \<and>
   (\<exists>r. calculate_risk_score_with exact_arith clock0 boundary_application = Inr r \<and>
      key_factors r ''negative'' = Some [''None identified''])"
proof -
  have up: "payment_to_income_of upward_arith boundary_application > 40"
    unfolding boundary_ratios_upward by simp
  have l_up: "loan_to_income_of upward_arith boundary_application < 3"
    "\<not> loan_to_income_of upward_arith boundary_application > 4"
    unfolding boundary_ratios_upward by simp_all
  from placeholder_iff_no_rule [OF boundary_application_valid, of upward_arith clock0]
  obtain r where r: "calculate_risk_score_with upward_arith clock0 boundary_application = Inr r"
    by blast
  then have r_eq: "r = assessment_with upward_arith clock0 boundary_application
                     (debt_to_income_of upward_arith boundary_application)
                     (loan_to_income_of upward_arith boundary_application)
                     (payment_to_income_of upward_arith boundary_application)"
    unfolding calculate_risk_score_with_valid [OF boundary_application_valid] by simp
  have fields: "applicant_income boundary_application = 25011"
    "credit_history_months boundary_application = 24"
    "employment_status boundary_application = ''employed''"
    by (simp_all add: boundary_application_def)
  have neg: "key_factors r ''negative'' = Some [''High monthly payment burden'']"
    by (simp add: r_eq key_factors_assessment_with negative_factors_def Let_def fields
        boundary_ratios_upward(1) up l_up)
  have pos: "key_factors r ''positive'' =
        Some [''Low debt-to-income ratio'', ''Stable employment'', ''Reasonable loan amount'']"
    by (simp add: r_eq key_factors_assessment_with positive_factors_def Let_def fields
        boundary_ratios_upward(1) l_up)
  have ex: "\<exists>r. calculate_risk_score_with exact_arith clock0 boundary_application = Inr r \<and>
      key_factors r ''negative'' = Some [''None identified'']"
    unfolding calculate_risk_score_with_valid [OF boundary_application_valid]
    by (simp add: key_factors_assessment_with negative_factors_def Let_def fields
        boundary_ratios_exact)
  from up r neg pos ex boundary_ratios_exact(3) boundary_application_valid
  show ?thesis by blast
qed


text \<open>
  C9. The low-risk scenario: income 100000, loan 150000, term 180, credit history 96,
  employed, urban, one dependent, graduate, debt 5000 is assessed as category LOW,
  recommendation APPROVE, with a score of at least 70.
\<close>

theorem low_risk_scenario:
  "\<exists>r. calculate_risk_score clk low_risk_application = Inr r \<and>
       risk_category r = ''LOW'' \<and> approval_recommendation r = ''APPROVE'' \<and>
       risk_score r \<ge> 70"
  by (simp add: calculate_risk_score_def assessment_def score_points_def categorize_def
      low_risk_application_def Let_def)

text \<open>
  C6. For every valid applicant record the scoring block of the dataset generator and the
  engine of the API give the same score and the same category, and the generator's
  decision is the label that corresponds to the API's recommendation (APPROVE and
  APPROVED, REVIEW and REVIEW, DECLINE and DECLINED); so does every row that
  \<^verbatim>\<open>generate_application\<close> builds from draws describing the record.
\<close>

theorem generator_matches_api:
  assumes "valid_application a"
  shows "\<exists>r dti lti s c d.
           calculate_risk_score clk a = Inr r \<and>
           generator_scoring (applicant_income a) (loan_amount a) (loan_term_months a)
             (credit_history_months a) (employment_status a) (property_area a)
             (dependents a) (education a) (existing_debt a) = Inr (dti, lti, s, c, d) \<and>
           s = risk_score r \<and> c = risk_category r \<and>
           (approval_recommendation r, d) \<in> set decision_labels \<and>
           (\<forall>rnd. application_of rnd = a \<longrightarrow>
              (\<exists>row. generate_application strftime_ymd rnd = Inr row \<and>
                 row_risk_score row = risk_score r \<and>
                 row_risk_category row = risk_category r \<and>
                 (approval_recommendation r, decision row) \<in> set decision_labels))"
proof -
  let ?d = "existing_debt a / applicant_income a * 100"
  let ?l = "loan_amount a / applicant_income a"
  let ?p = "loan_amount a / of_int (loan_term_months a) * 12 / applicant_income a * 100"
  let ?r = "assessment clk a ?d ?l ?p"
  let ?s = "max 0 (min 100 (table_score a))"
  let ?c = "if ?s \<ge> 70 then ''LOW'' else if ?s \<ge> 50 then ''MEDIUM'' else ''HIGH''"
  let ?dec = "if ?s \<ge> 70 then ''APPROVED'' else if ?s \<ge> 50 then ''REVIEW'' else ''DECLINED''"
  note nz = valid_application_divisors [OF assms]
  have api: "calculate_risk_score clk a = Inr ?r"
    by (rule calculate_risk_score_valid [OF assms])
  have gen: "generator_scoring (applicant_income a) (loan_amount a) (loan_term_months a)
             (credit_history_months a) (employment_status a) (property_area a)
             (dependents a) (education a) (existing_debt a) = Inr (?d, ?l, ?s, ?c, ?dec)"
    unfolding generator_scoring_table [OF nz] table_score_def Let_def ..
  have score: "risk_score ?r = ?s"
    by (simp only: risk_score_assessment score_points_table)
  have cat: "risk_category ?r = ?c"
    unfolding category_assessment(1) score by (rule categorize_generator)
  have dec: "(approval_recommendation ?r, ?dec) \<in> set decision_labels"
    unfolding category_assessment(2) score by (rule categorize_generator)
  have rows: "\<exists>row. generate_application strftime_ymd rnd = Inr row \<and>
                 row_risk_score row = risk_score ?r \<and>
                 row_risk_category row = risk_category ?r \<and>
                 (approval_recommendation ?r, decision row) \<in> set decision_labels"
    if "application_of rnd = a" for rnd
  proof -
    have fields: "applicant_income a = of_int (rnd_income rnd)"
      "loan_amount a = of_int (rnd_loan_amount rnd)"
      "loan_term_months a = rnd_loan_term rnd"
      "credit_history_months a = rnd_credit_history rnd"
      "employment_status a = rnd_employment rnd"
      "property_area a = rnd_property_area rnd"
      "dependents a = rnd_dependents rnd"
      "education a = rnd_education rnd"
      "existing_debt a = of_int (rnd_existing_debt rnd)"
      using that by (auto simp: application_of_def)
    have "generate_application strftime_ymd rnd =
            Inr \<lparr> application_date = strftime_ymd (today rnd - rnd_days rnd),
                  row_applicant_income = rnd_income rnd,
                  row_loan_amount = rnd_loan_amount rnd,
                  row_loan_term_months = rnd_loan_term rnd,
                  row_credit_history_months = rnd_credit_history rnd,
                  row_employment_status = rnd_employment rnd,
                  row_property_area = rnd_property_area rnd,
                  row_dependents = rnd_dependents rnd,
                  row_education = rnd_education rnd,
                  row_existing_debt = rnd_existing_debt rnd,
                  row_debt_to_income_ratio = py_round ?d 2,
                  row_loan_to_income_ratio = py_round ?l 2,
                  row_risk_score = ?s,
                  row_risk_category = ?c,
                  decision = ?dec \<rparr>"
      unfolding generate_application_def gen [unfolded fields]
      by (simp only: sum.case prod.case fields)
    then show ?thesis
      using score cat dec by simp
  qed
  from api gen score cat dec rows show ?thesis
    by (intro exI [of _ ?r] exI [of _ ?d] exI [of _ ?l] exI [of _ ?s] exI [of _ ?c]
        exI [of _ ?dec]) (simp only: simp_thms, blast)
qed

theorem generator_matches_api_witness:
  "valid_application (application_of draws0) \<and>
   (\<exists>r row. calculate_risk_score clock0 (application_of draws0) = Inr r \<and>
      generate_application january_2026 draws0 = Inr row \<and>
      row_risk_score row = risk_score r \<and>
      row_risk_category row = risk_category r \<and>
      (approval_recommendation r, decision row) \<in> set decision_labels)"
  using generator_matches_api [OF draws0_valid, of clock0 january_2026] draws0_valid
  by blast

text \<open>
  C7. For every valid applicant record, whatever the float arithmetic, the score is the
  base 50 plus the nine band adjustments of the point table, read at the computed ratios
  and capped to 0..100, and none of score, category and recommendation depends on
  \<^verbatim>\<open>payment_to_income\<close>: with any other value in its place the result differs at
  most in the negative list of key factors, where the entry
  \<open>High monthly payment burden\<close> is present exactly when the value exceeds 40.
\<close>

theorem payment_to_income_only_explains:
  assumes "valid_application a"
  shows "\<exists>r. calculate_risk_score_with ar clk a = Inr r \<and>
           risk_score r = max 0 (min 100 (table_score_with ar a)) \<and>
           (\<forall>p. let r' = assessment_with ar clk a (debt_to_income_of ar a)
                           (loan_to_income_of ar a) p;
                    others = negative_factors a (debt_to_income_of ar a)
                               (loan_to_income_of ar a) 0
                in risk_score r' = risk_score r \<and>
                   risk_category r' = risk_category r \<and>
                   approval_recommendation r' = approval_recommendation r \<and>
                   r' = r\<lparr>key_factors := (key_factors r)(''negative'' \<mapsto>
                          (if p > 40 then others @ [''High monthly payment burden'']
                           else if others \<noteq> [] then others else [''None identified'']))\<rparr>)"
proof -
  let ?d = "debt_to_income_of ar a"
  let ?l = "loan_to_income_of ar a"
  let ?p = "payment_to_income_of ar a"
  let ?r = "assessment_with ar clk a ?d ?l ?p"
  have c: "calculate_risk_score_with ar clk a = Inr ?r"
    by (rule calculate_risk_score_with_valid [OF assms])
  have s: "risk_score ?r = max 0 (min 100 (table_score_with ar a))"
    by (simp only: risk_score_assessment_with score_points_table_with)
  have sc: "risk_score (assessment_with ar clk a ?d ?l p) = risk_score ?r" for p
    by (simp only: risk_score_assessment_with)
  have cat: "risk_category (assessment_with ar clk a ?d ?l p) = risk_category ?r"
      "approval_recommendation (assessment_with ar clk a ?d ?l p) = approval_recommendation ?r"
    for p
    by (simp_all only: category_assessment_with risk_score_assessment_with)
  have rec: "assessment_with ar clk a ?d ?l p =
      ?r\<lparr>key_factors := (key_factors ?r)(''negative'' \<mapsto>
          (if p > 40 then negative_factors a ?d ?l 0 @ [''High monthly payment burden'']
           else if negative_factors a ?d ?l 0 \<noteq> [] then negative_factors a ?d ?l 0
           else [''None identified'']))\<rparr>" for p
    by (rule assessment_with_payment_to_income)
  have "\<forall>p. risk_score (assessment_with ar clk a ?d ?l p) = risk_score ?r \<and>
            risk_category (assessment_with ar clk a ?d ?l p) = risk_category ?r \<and>
            approval_recommendation (assessment_with ar clk a ?d ?l p) =
              approval_recommendation ?r \<and>
            assessment_with ar clk a ?d ?l p =
              ?r\<lparr>key_factors := (key_factors ?r)(''negative'' \<mapsto>
                (if p > 40 then negative_factors a ?d ?l 0 @ [''High monthly payment burden'']
                 else if negative_factors a ?d ?l 0 \<noteq> [] then negative_factors a ?d ?l 0
                 else [''None identified'']))\<rparr>"
    by (intro allI conjI sc cat rec)
  with c s show ?thesis
    unfolding Let_def by (intro exI [of _ ?r] conjI)
qed

theorem payment_to_income_only_explains_witness:
  "valid_application large_application \<and>
   table_score_with upward_arith large_application = 80 \<and>
   table_score_with exact_arith large_application = 88 \<and>
   (\<exists>r. calculate_risk_score_with upward_arith clock0 large_application = Inr r \<and>
      risk_score r = 80 \<and>
      key_factors r ''negative'' = Some [''None identified''] \<and>
      (let r' = assessment_with upward_arith clock0 large_application
                  (debt_to_income_of upward_arith large_application)
                  (loan_to_income_of upward_arith large_application) 41
       in risk_score r' = risk_score r \<and> risk_category r' = risk_category r \<and>
          approval_recommendation r' = approval_recommendation r \<and>
          key_factors r' ''negative'' = Some [''High monthly payment burden'']))"
proof -
  let ?d = "debt_to_income_of upward_arith large_application"
  let ?l = "loan_to_income_of upward_arith large_application"
  from payment_to_income_only_explains [OF large_application_valid, of upward_arith clock0]
  obtain r where r: "calculate_risk_score_with upward_arith clock0 large_application = Inr r"
    and s: "risk_score r = max 0 (min 100 (table_score_with upward_arith large_application))"
    and p: "\<forall>p. let r' = assessment_with upward_arith clock0 large_application ?d ?l p;
                    others = negative_factors large_application ?d ?l 0
                in risk_score r' = risk_score r \<and>
                   risk_category r' = risk_category r \<and>
                   approval_recommendation r' = approval_recommendation r \<and>
                   r' = r\<lparr>key_factors := (key_factors r)(''negative'' \<mapsto>
                          (if p > 40 then others @ [''High monthly payment burden'']
                           else if others \<noteq> [] then others else [''None identified'']))\<rparr>"
    by blast
  have score: "risk_score r = 80"
    unfolding s large_table_scores by simp
  have fields: "credit_history_months large_application = 24"
    "employment_status large_application = ''self_employed''"
    by (simp_all add: large_application_def)
  have l_up: "\<not> ?l > 4"
    unfolding large_ratios_upward by simp
  have others: "negative_factors large_application ?d ?l 0 = []"
    by (simp add: negative_factors_def Let_def fields large_ratios_upward(1) l_up)
  from p [rule_format, of 41] have at41:
    "risk_score (assessment_with upward_arith clock0 large_application ?d ?l 41) = risk_score r"
    "risk_category (assessment_with upward_arith clock0 large_application ?d ?l 41)
       = risk_category r"
    "approval_recommendation (assessment_with upward_arith clock0 large_application ?d ?l 41)
       = approval_recommendation r"
    "assessment_with upward_arith clock0 large_application ?d ?l 41 =
       r\<lparr>key_factors := (key_factors r)(''negative'' \<mapsto> [''High monthly payment burden''])\<rparr>"
    unfolding Let_def others by simp_all
  have neg41: "key_factors (assessment_with upward_arith clock0 large_application ?d ?l 41)
                 ''negative'' = Some [''High monthly payment burden'']"
    unfolding at41(4) by simp
  have r_eq: "r = assessment_with upward_arith clock0 large_application ?d ?l
          (payment_to_income_of upward_arith large_application)"
    using r unfolding calculate_risk_score_with_valid [OF large_application_valid] by simp
  have p_up: "\<not> payment_to_income_of upward_arith large_application > 40"
    by (simp add: payment_to_income_of_def upward_arith_def large_application_def)
  have neg: "key_factors r ''negative'' = Some [''None identified'']"
    by (simp add: r_eq key_factors_assessment_with negative_factors_def Let_def fields
        large_ratios_upward(1) l_up p_up)
  from r score neg at41(1-3) neg41 large_table_scores large_application_valid
  show ?thesis unfolding Let_def by blast
qed

text \<open>
  C10. For every valid applicant record the confidence is at most 0.85 (and at least
  0.75): the distance of the capped score from 50 is at most 50. Both ends are reached:
  0.85 by a valid record whose capped score is 100, 0.75 by one whose score is 50.
\<close>

theorem confidence_at_most_085:
  "(valid_application a \<longrightarrow>
      (\<exists>r. calculate_risk_score clk a = Inr r \<and>
           75 / 100 \<le> confidence r \<and> confidence r \<le> 85 / 100)) \<and>
   (\<exists>a'. valid_application a' \<and>
      (\<exists>r. calculate_risk_score clk a' = Inr r \<and> risk_score r = 100 \<and>
           confidence r = 85 / 100)) \<and>
   (\<exists>a'. valid_application a' \<and>
      (\<exists>r. calculate_risk_score clk a' = Inr r \<and> risk_score r = 50 \<and>
           confidence r = 75 / 100))"
proof (intro conjI impI)
  assume v: "valid_application a"
  show "\<exists>r. calculate_risk_score clk a = Inr r \<and>
           75 / 100 \<le> confidence r \<and> confidence r \<le> 85 / 100"
    unfolding calculate_risk_score_valid [OF v]
    using confidence_range by blast
next
  show "\<exists>a'. valid_application a' \<and>
      (\<exists>r. calculate_risk_score clk a' = Inr r \<and> risk_score r = 100 \<and>
           confidence r = 85 / 100)"
    using low_risk_application_valid low_risk_assessed by blast
next
  show "\<exists>a'. valid_application a' \<and>
      (\<exists>r. calculate_risk_score clk a' = Inr r \<and> risk_score r = 50 \<and>
           confidence r = 75 / 100)"
    using neutral_application_valid neutral_assessed by blast
qed

theorem confidence_at_most_085_witness:
  "valid_application high_risk_application \<and>
   (\<exists>r. calculate_risk_score clock0 high_risk_application = Inr r \<and>
        75 / 100 \<le> confidence r \<and> confidence r \<le> 85 / 100)"
  using confidence_at_most_085 [of high_risk_application clock0] high_risk_application_valid
  by blast

text \<open>
  C8. For every count \<open>n\<close>, when every call of the run draws within the ranges of the
  library calls, \<^verbatim>\<open>generate_dataset(n)\<close> returns a list of \<open>n\<close> rows (none for a
  negative count) that is sorted in ascending order of the \<^verbatim>\<open>application_date\<close>
  strings: each row's date is at most the date of the row after it.
\<close>

theorem generate_dataset_sorted:
  assumes "\<forall>i < nat n. draws_in_range (rnd i)"
  shows "\<exists>rows. generate_dataset strftime_ymd rnd n = Inr rows \<and> length rows = nat n \<and>
           sorted (map application_date rows) \<and>
           (\<forall>i. Suc i < length rows \<longrightarrow>
                application_date (rows ! i) \<le> application_date (rows ! Suc i))"
proof -
  from assms have "\<forall>j < nat n. draws_in_range (rnd (0 + j))" by simp
  from generate_loop_total [OF this, of strftime_ymd "[]"] obtain applications
    where loop: "generate_loop strftime_ymd rnd 0 (nat n) [] = Inr applications"
      and len: "length applications = nat n" by auto
  let ?rows = "sort_key application_date applications"
  have res: "generate_dataset strftime_ymd rnd n = Inr ?rows"
    by (simp add: generate_dataset_def loop)
  have srt: "sorted (map application_date ?rows)"
    by (rule sorted_sort_key)
  have adj: "application_date (?rows ! i) \<le> application_date (?rows ! Suc i)"
    if "Suc i < length ?rows" for i
  proof -
    from srt that have "map application_date ?rows ! i \<le> map application_date ?rows ! Suc i"
      by (simp add: sorted_iff_nth_Suc del: length_sort sorted_sort_key)
    with that show ?thesis by simp
  qed
  from res len srt adj show ?thesis
    by (intro exI [of _ ?rows]) simp
qed

theorem generate_dataset_sorted_witness:
  "draws_in_range (run0 0) \<and> draws_in_range (run0 1) \<and> draws_in_range (run0 2) \<and>
   (\<exists>rows. generate_dataset january_2026 run0 3 = Inr rows \<and> length rows = 3 \<and>
      sorted (map application_date rows) \<and>
      (\<forall>i. Suc i < length rows \<longrightarrow>
           application_date (rows ! i) \<le> application_date (rows ! Suc i)))"
proof -
  have "draws_in_range (run0 0)" "draws_in_range (run0 1)" "draws_in_range (run0 2)"
    using run0_in_range by simp_all
  moreover have "\<exists>rows. generate_dataset january_2026 run0 3 = Inr rows \<and>
      length rows = 3 \<and> sorted (map application_date rows) \<and>
      (\<forall>i. Suc i < length rows \<longrightarrow>
           application_date (rows ! i) \<le> application_date (rows ! Suc i))"
    using generate_dataset_sorted [OF run0_in_range, of january_2026] by simp
  ultimately show ?thesis by blast
qed

end
